theory Spec2Isabelle
  imports Main "HOL-Library.Sublist" "HOL-Library.Word"
begin

section \<open>The command dispatch layer of \<open>src/utils/request.ts\<close>\<close>

text \<open>
  The development embeds the browser path of \<open>request\<close> (the single exported
  operation of \<open>request.ts\<close>): the route table \<open>COMMAND_MAPPING\<close>, the
  substitution of \<open>:key\<close> placeholders, the partition of the argument bag into
  query string and JSON body, the authorization headers, and the normalisation of the
  HTTP response. Promises are modelled by their settled outcome, the platform
  (\<open>fetch\<close>, \<open>JSON.parse\<close>, \<open>Date.now\<close>, the native \<open>invoke\<close>) is a
  parameter, and the \<open>window\<close> global is explicit state. Calls to \<open>console\<close>
  have no effect on any result and are left out.
\<close>

subsection \<open>JavaScript values\<close>

text \<open>
  The argument bag has type \<open>any\<close>. The values it holds are modelled as plain data:
  \<open>undefined\<close>, \<open>null\<close>, booleans, numbers, strings, arrays and objects. A number
  is an integer from \<open>-2^53\<close> up to \<open>2^53 - 1\<close>, held as a 54-bit word that is read
  signed (\<open>sint\<close>): every such integer is a value of the JavaScript number type, and
  \<open>String\<close> and \<open>JSON.stringify\<close> print it as a plain decimal. Fractions, larger
  numbers, \<open>NaN\<close> and the infinities are outside the type.
  A string is a list of bytes (the UTF-8 encoding of a well-formed JavaScript string).
  An object is the list of its own enumerable properties in the order \<open>Object.keys\<close>
  enumerates them; the keys of an object are pairwise distinct.
\<close>

datatype jsval =
    JUndefined
  | JNull
  | JBool bool
  | JNum "54 word"
  | JStr string
  | JArr "jsval list"
  | JObj "(string \<times> jsval) list"

type_synonym jsobj = "(string \<times> jsval) list"

text \<open>\<open>obj[key]\<close> on an own property; \<open>undefined\<close> when there is none.\<close>

definition get_prop :: "jsobj \<Rightarrow> string \<Rightarrow> jsval" where
  "get_prop obj key = (case map_of obj key of None \<Rightarrow> JUndefined | Some v \<Rightarrow> v)"

text \<open>\<open>delete obj[key]\<close>.\<close>

definition delete_prop :: "jsobj \<Rightarrow> string \<Rightarrow> jsobj" where
  "delete_prop obj key = filter (\<lambda>kv. fst kv \<noteq> key) obj"

text \<open>Truthiness, as \<open>?:\<close>, \<open>!\<close> and \<open>||\<close> test it.\<close>

fun truthy :: "jsval \<Rightarrow> bool" where
  "truthy JUndefined = False"
| "truthy JNull = False"
| "truthy (JBool b) = b"
| "truthy (JNum n) = (n \<noteq> 0)"
| "truthy (JStr s) = (s \<noteq> [])"
| "truthy (JArr _) = True"
| "truthy (JObj _) = True"

subsection \<open>Strings: \<open>String\<close>, \<open>includes\<close>, \<open>replace\<close>, \<open>encodeURIComponent\<close>\<close>

definition digit_char :: "nat \<Rightarrow> char" where
  "digit_char d = char_of (48 + d)"

function show_nat :: "nat \<Rightarrow> string" where
  "show_nat n = (if n < 10 then [digit_char n] else show_nat (n div 10) @ [digit_char (n mod 10)])"
  by pat_completeness auto
termination
  by (relation "measure id") auto

declare show_nat.simps [simp del]

function show_digits :: "int \<Rightarrow> string" where
  "show_digits i =
     (if i < 10 then [digit_char (nat i)]
      else show_digits (i div 10) @ [digit_char (nat (i mod 10))])"
  by pat_completeness auto
termination
  by (relation "measure nat") auto

declare show_digits.simps [simp del]

definition show_int :: "int \<Rightarrow> string" where
  "show_int i = (if i < 0 then CHR ''-'' # show_digits (- i) else show_digits i)"

fun join_with :: "string \<Rightarrow> string list \<Rightarrow> string" where
  "join_with sep [] = []"
| "join_with sep [x] = x"
| "join_with sep (x # y # ys) = x @ sep @ join_with sep (y # ys)"

text \<open>
  \<open>String(value)\<close>. An array prints its elements separated by commas, \<open>null\<close> and
  \<open>undefined\<close> elements as the empty string; a plain object prints as
  \<open>[object Object]\<close>.
\<close>

fun js_String :: "jsval \<Rightarrow> string" where
  "js_String JUndefined = ''undefined''"
| "js_String JNull = ''null''"
| "js_String (JBool b) = (if b then ''true'' else ''false'')"
| "js_String (JNum n) = show_int (sint n)"
| "js_String (JStr s) = s"
| "js_String (JArr vs) =
     join_with '',''
       (map (\<lambda>v. if v = JUndefined \<or> v = JNull then [] else js_String v) vs)"
| "js_String (JObj _) = ''[object Object]''"

text \<open>\<open>s.includes(p)\<close>: \<open>p\<close> occurs in \<open>s\<close> as a contiguous run.\<close>

fun js_includes :: "string \<Rightarrow> string \<Rightarrow> bool" where
  "js_includes [] p = (p = [])"
| "js_includes (c # cs) p = (prefix p (c # cs) \<or> js_includes cs p)"

text \<open>
  \<open>s.replace(p, r)\<close> with a string pattern: the first occurrence of \<open>p\<close> is
  replaced, \<open>s\<close> is returned as it is when there is none. The replacement patterns
  of \<open>replace\<close> all start with a dollar sign, which \<open>encodeURIComponent\<close> never
  leaves in its result (lemma \<open>encodeURIComponent_no_dollar\<close>), so the replacement is
  inserted literally.
\<close>

fun js_replace :: "string \<Rightarrow> string \<Rightarrow> string \<Rightarrow> string" where
  "js_replace [] p r = (if p = [] then r else [])"
| "js_replace (c # cs) p r =
     (if prefix p (c # cs) then r @ drop (length p) (c # cs) else c # js_replace cs p r)"

definition is_alnum :: "char \<Rightarrow> bool" where
  "is_alnum c =
     (let n = (of_char c :: nat)
      in (48 \<le> n \<and> n \<le> 57) \<or> (65 \<le> n \<and> n \<le> 90) \<or> (97 \<le> n \<and> n \<le> 122))"

definition hex_digit :: "nat \<Rightarrow> char" where
  "hex_digit d = (if d < 10 then char_of (48 + d) else char_of (55 + d))"

definition percent_encode :: "char \<Rightarrow> string" where
  "percent_encode c =
     (let n = (of_char c :: nat) in [CHR ''%'', hex_digit (n div 16), hex_digit (n mod 16)])"

text \<open>
  \<open>encodeURIComponent\<close> keeps the letters, the digits and \<open>- _ . ! ~ * ' ( )\<close>, and
  writes every other byte as \<open>%XX\<close>.
\<close>

definition uri_unreserved :: "char \<Rightarrow> bool" where
  "uri_unreserved c =
     (is_alnum c \<or> c \<in> set [CHR ''-'', CHR ''_'', CHR ''.'', CHR ''!'', CHR ''~'', CHR ''*'',
         CHR 0x27, CHR ''('', CHR '')''])"

definition encodeURIComponent :: "string \<Rightarrow> string" where
  "encodeURIComponent s = concat (map (\<lambda>c. if uri_unreserved c then [c] else percent_encode c) s)"

text \<open>
  \<open>URLSearchParams\<close>: \<open>append\<close> adds a pair at the end, \<open>toString\<close> is the
  \<open>application/x-www-form-urlencoded\<close> serialisation: letters, digits and
  \<open>* - . _\<close> stay, a space becomes \<open>+\<close>, every other byte becomes \<open>%XX\<close>; the pairs
  are written \<open>name=value\<close> and joined by \<open>&\<close>.
\<close>

definition form_encode_char :: "char \<Rightarrow> string" where
  "form_encode_char c =
     (if is_alnum c \<or> c \<in> set [CHR ''*'', CHR ''-'', CHR ''.'', CHR ''_''] then [c]
      else if c = CHR '' '' then [CHR ''+'']
      else percent_encode c)"

definition form_encode :: "string \<Rightarrow> string" where
  "form_encode s = concat (map form_encode_char s)"

definition URLSearchParams_toString :: "(string \<times> string) list \<Rightarrow> string" where
  "URLSearchParams_toString params =
     join_with ''&'' (map (\<lambda>(k, v). form_encode k @ ''='' @ form_encode v) params)"

subsection \<open>The route table\<close>

datatype verb = GET | POST | DELETE | PATCH

record route =
  url :: string
  "method" :: verb

definition COMMAND_MAPPING :: "(string \<times> route) list" where
  "COMMAND_MAPPING =
    [(''list_accounts'', \<lparr>url = ''/api/accounts'', method = GET\<rparr>),
     (''get_current_account'', \<lparr>url = ''/api/accounts/current'', method = GET\<rparr>),
     (''switch_account'', \<lparr>url = ''/api/accounts/switch'', method = POST\<rparr>),
     (''add_account'', \<lparr>url = ''/api/accounts'', method = POST\<rparr>),
     (''delete_account'', \<lparr>url = ''/api/accounts/:accountId'', method = DELETE\<rparr>),
     (''delete_accounts'', \<lparr>url = ''/api/accounts/bulk-delete'', method = POST\<rparr>),
     (''fetch_account_quota'', \<lparr>url = ''/api/accounts/:accountId/quota'', method = GET\<rparr>),
     (''refresh_account_quota'', \<lparr>url = ''/api/accounts/:accountId/quota'', method = GET\<rparr>),
     (''refresh_all_quotas'', \<lparr>url = ''/api/accounts/refresh'', method = POST\<rparr>),
     (''reorder_accounts'', \<lparr>url = ''/api/accounts/reorder'', method = POST\<rparr>),
     (''warm_up_accounts'', \<lparr>url = ''/api/accounts/warmup'', method = POST\<rparr>),
     (''warm_up_all_accounts'', \<lparr>url = ''/api/accounts/warmup'', method = POST\<rparr>),
     (''warm_up_account'', \<lparr>url = ''/api/accounts/:accountId/warmup'', method = POST\<rparr>),
     (''update_account_label'', \<lparr>url = ''/api/accounts/:accountId/label'', method = POST\<rparr>),
     (''export_accounts'', \<lparr>url = ''/api/accounts/export'', method = POST\<rparr>),
     (''bind_device_profile'', \<lparr>url = ''/api/accounts/:accountId/bind-device'', method = POST\<rparr>),
     (''get_device_profiles'', \<lparr>url = ''/api/accounts/:accountId/device-profiles'', method = GET\<rparr>),
     (''list_device_versions'', \<lparr>url = ''/api/accounts/:accountId/device-versions'', method = GET\<rparr>),
     (''preview_generate_profile'', \<lparr>url = ''/api/accounts/device-preview'', method = POST\<rparr>),
     (''bind_device_profile_with_profile'',
        \<lparr>url = ''/api/accounts/:accountId/bind-device-profile'', method = POST\<rparr>),
     (''restore_original_device'', \<lparr>url = ''/api/accounts/restore-original'', method = POST\<rparr>),
     (''restore_device_version'',
        \<lparr>url = ''/api/accounts/:accountId/device-versions/:versionId/restore'', method = POST\<rparr>),
     (''delete_device_version'',
        \<lparr>url = ''/api/accounts/:accountId/device-versions/:versionId'', method = DELETE\<rparr>),
     (''open_device_folder'', \<lparr>url = ''/api/system/open-folder'', method = POST\<rparr>),
     (''load_config'', \<lparr>url = ''/api/config'', method = GET\<rparr>),
     (''save_config'', \<lparr>url = ''/api/config'', method = POST\<rparr>),
     (''enable_debug_console'', \<lparr>url = ''/api/debug/enable'', method = POST\<rparr>),
     (''disable_debug_console'', \<lparr>url = ''/api/debug/disable'', method = POST\<rparr>),
     (''is_debug_console_enabled'', \<lparr>url = ''/api/debug/enabled'', method = GET\<rparr>),
     (''get_debug_console_logs'', \<lparr>url = ''/api/debug/logs'', method = GET\<rparr>),
     (''clear_debug_console_logs'', \<lparr>url = ''/api/debug/logs/clear'', method = POST\<rparr>),
     (''get_data_dir_path'', \<lparr>url = ''/api/system/data-dir'', method = GET\<rparr>),
     (''get_update_settings'', \<lparr>url = ''/api/system/updates/settings'', method = GET\<rparr>),
     (''save_update_settings'', \<lparr>url = ''/api/system/updates/save'', method = POST\<rparr>),
     (''is_auto_launch_enabled'', \<lparr>url = ''/api/system/autostart/status'', method = GET\<rparr>),
     (''toggle_auto_launch'', \<lparr>url = ''/api/system/autostart/toggle'', method = POST\<rparr>),
     (''get_http_api_settings'', \<lparr>url = ''/api/system/http-api/settings'', method = GET\<rparr>),
     (''save_http_api_settings'', \<lparr>url = ''/api/system/http-api/settings'', method = POST\<rparr>),
     (''get_antigravity_path'', \<lparr>url = ''/api/system/antigravity/path'', method = GET\<rparr>),
     (''get_antigravity_args'', \<lparr>url = ''/api/system/antigravity/args'', method = GET\<rparr>),
     (''should_check_updates'', \<lparr>url = ''/api/system/updates/check-status'', method = GET\<rparr>),
     (''check_for_updates'', \<lparr>url = ''/api/system/updates/check'', method = POST\<rparr>),
     (''update_last_check_time'', \<lparr>url = ''/api/system/updates/touch'', method = POST\<rparr>),
     (''prepare_oauth_url'', \<lparr>url = ''/api/auth/url'', method = GET\<rparr>),
     (''start_oauth_login'', \<lparr>url = ''/api/accounts/oauth/start'', method = POST\<rparr>),
     (''complete_oauth_login'', \<lparr>url = ''/api/accounts/oauth/complete'', method = POST\<rparr>),
     (''cancel_oauth_login'', \<lparr>url = ''/api/accounts/oauth/cancel'', method = POST\<rparr>),
     (''submit_oauth_code'', \<lparr>url = ''/api/accounts/oauth/submit-code'', method = POST\<rparr>),
     (''import_v1_accounts'', \<lparr>url = ''/api/accounts/import/v1'', method = POST\<rparr>),
     (''import_from_db'', \<lparr>url = ''/api/accounts/import/db'', method = POST\<rparr>),
     (''import_custom_db'', \<lparr>url = ''/api/accounts/import/db-custom'', method = POST\<rparr>),
     (''sync_account_from_db'', \<lparr>url = ''/api/accounts/sync/db'', method = POST\<rparr>),
     (''open_data_folder'', \<lparr>url = ''/api/system/open-folder'', method = POST\<rparr>),
     (''clear_antigravity_cache'', \<lparr>url = ''/api/system/cache/clear'', method = POST\<rparr>),
     (''get_antigravity_cache_paths'', \<lparr>url = ''/api/system/cache/paths'', method = GET\<rparr>),
     (''clear_log_cache'', \<lparr>url = ''/api/system/logs/clear-cache'', method = POST\<rparr>)]"

text \<open>
  \<open>COMMAND_MAPPING\<close> is an object literal, so \<open>COMMAND_MAPPING[cmd]\<close> also finds
  the properties the literal inherits from \<open>Object.prototype\<close>. Each of them is a
  function or an object, hence truthy, and has neither a \<open>url\<close> nor a \<open>method\<close>
  property.
\<close>

definition Object_prototype_keys :: "string list" where
  "Object_prototype_keys =
    [''constructor'', ''__proto__'', ''hasOwnProperty'', ''isPrototypeOf'',
     ''propertyIsEnumerable'', ''toLocaleString'', ''toString'', ''valueOf'',
     ''__defineGetter__'', ''__defineSetter__'', ''__lookupGetter__'', ''__lookupSetter__'']"

datatype lookup = Missing | Own route | Inherited

definition COMMAND_MAPPING_get :: "string \<Rightarrow> lookup" where
  "COMMAND_MAPPING_get cmd =
     (case map_of COMMAND_MAPPING cmd of
        Some r \<Rightarrow> Own r
      | None \<Rightarrow> if cmd \<in> set Object_prototype_keys then Inherited else Missing)"

subsection \<open>\<open>JSON.stringify\<close>\<close>

text \<open>
  A string is written between double quotes, with the double quote, the backslash and
  the control characters escaped. An object writes the properties whose value is not
  \<open>undefined\<close>; an array writes \<open>undefined\<close> as \<open>null\<close>. At top level
  \<open>JSON.stringify(undefined)\<close> is \<open>undefined\<close>, not a string.
\<close>

definition hex_lower :: "nat \<Rightarrow> char" where
  "hex_lower d = (if d < 10 then char_of (48 + d) else char_of (87 + d))"

definition json_escape_char :: "char \<Rightarrow> string" where
  "json_escape_char c =
     (let n = (of_char c :: nat) in
      if c = CHR 0x22 then [CHR 0x5C, CHR 0x22]
      else if c = CHR 0x5C then [CHR 0x5C, CHR 0x5C]
      else if n = 8 then [CHR 0x5C, CHR ''b'']
      else if n = 9 then [CHR 0x5C, CHR ''t'']
      else if n = 10 then [CHR 0x5C, CHR ''n'']
      else if n = 12 then [CHR 0x5C, CHR ''f'']
      else if n = 13 then [CHR 0x5C, CHR ''r'']
      else if n < 32 then [CHR 0x5C, CHR ''u'', CHR ''0'', CHR ''0'', hex_lower (n div 16), hex_lower (n mod 16)]
      else [c])"

definition json_quote :: "string \<Rightarrow> string" where
  "json_quote s = CHR 0x22 # concat (map json_escape_char s) @ [CHR 0x22]"

fun stringify :: "jsval \<Rightarrow> string"
  and stringify_elems :: "jsval list \<Rightarrow> string list"
  and stringify_props :: "(string \<times> jsval) list \<Rightarrow> string list"
where
  "stringify JUndefined = ''null''"
| "stringify JNull = ''null''"
| "stringify (JBool b) = (if b then ''true'' else ''false'')"
| "stringify (JNum n) = show_int (sint n)"
| "stringify (JStr s) = json_quote s"
| "stringify (JArr vs) = ''['' @ join_with '','' (stringify_elems vs) @ '']''"
| "stringify (JObj kvs) = ''{'' @ join_with '','' (stringify_props kvs) @ ''}''"
| "stringify_elems [] = []"
| "stringify_elems (v # vs) = stringify v # stringify_elems vs"
| "stringify_props [] = []"
| "stringify_props ((k, v) # kvs) =
     (if v = JUndefined then stringify_props kvs
      else (json_quote k @ '':'' @ stringify v) # stringify_props kvs)"

definition JSON_stringify :: "jsval \<Rightarrow> string option" where
  "JSON_stringify v = (if v = JUndefined then None else Some (stringify v))"

subsection \<open>Building the HTTP request\<close>

text \<open>
  The \<open>window\<close> global, as far as \<open>request\<close> uses it: the session storage, the
  property \<open>_lastAuthErrorTime\<close> (\<open>None\<close> while it is \<open>undefined\<close>) and the events
  dispatched on it so far. The state of the environment is a \<open>window option\<close>:
  \<open>None\<close> is an environment in which \<open>typeof window\<close> is \<open>'undefined'\<close>.
\<close>

record window =
  sessionStorage :: "string \<rightharpoonup> string"
  lastAuthErrorTime :: "int option"
  dispatched :: "string list"

text \<open>
  What \<open>fetch\<close> is called with. \<open>input = None\<close> and \<open>init_method = None\<close> stand for
  \<open>undefined\<close>, which \<open>fetch\<close> reads as the relative URL \<open>undefined\<close> and the
  default method \<open>GET\<close>; \<open>init_body = None\<close> is a request without a body.
\<close>

record fetch_call =
  input :: "string option"
  init_method :: "verb option"
  init_headers :: "(string \<times> string) list"
  init_body :: "string option"

text \<open>
  What a call throws: an \<open>Error\<close>, \<open>TypeError\<close> or \<open>ReferenceError\<close> object with its
  message, or any other value (\<open>throw errorData.error || ...\<close>).
\<close>

datatype js_exn =
    Error string
  | TypeError string
  | ReferenceError string
  | Thrown jsval

text \<open>
  The loop of lines 103 to 114, \<open>Object.keys(args).forEach\<close>: \<open>keys\<close> are the keys
  still to visit, the pair \<open>(u, bodyArgs)\<close> is the current value of \<open>url\<close> and of \<open>bodyArgs\<close>.
\<close>

fun substitute_path :: "jsobj \<Rightarrow> string list \<Rightarrow> string \<times> jsobj \<Rightarrow> string \<times> jsobj" where
  "substitute_path args [] (u, bodyArgs) = (u, bodyArgs)"
| "substitute_path args (key # keys) (u, bodyArgs) =
     (let placeholder = CHR '':'' # key in
      if js_includes u placeholder
      then substitute_path args keys
             (js_replace u placeholder (encodeURIComponent (js_String (get_prop args key))),
              delete_prop bodyArgs key)
      else substitute_path args keys (u, bodyArgs))"

text \<open>
  The loop of lines 131 to 137, \<open>Object.entries(args).forEach\<close>, appending to
  \<open>params\<close>; \<open>u\<close> is the URL after path substitution.
\<close>

fun query_params ::
  "string \<Rightarrow> (string \<times> jsval) list \<Rightarrow> (string \<times> string) list \<Rightarrow> (string \<times> string) list" where
  "query_params u [] params = params"
| "query_params u ((key, value) # entries) params =
     (if js_includes u (encodeURIComponent (js_String value)) then query_params u entries params
      else if value \<noteq> JUndefined \<and> value \<noteq> JNull
      then query_params u entries (params @ [(key, js_String value)])
      else query_params u entries params)"

definition auth_headers :: "window option \<Rightarrow> (string \<times> string) list" where
  "auth_headers win =
     (let apiKey = (case win of None \<Rightarrow> None | Some w \<Rightarrow> sessionStorage w ''abv_admin_api_key'') in
      (''Content-Type'', ''application/json'') #
      (case apiKey of
         None \<Rightarrow> []
       | Some k \<Rightarrow> if k \<noteq> [] then [(''Authorization'', ''Bearer '' @ k), (''x-api-key'', k)] else []))"

text \<open>
  Lines 116 to 144: the headers, then the query string (GET and DELETE) or the JSON body
  (POST and PATCH). \<open>url1\<close> and \<open>bodyArgs\<close> are the URL and the copy after the loop
  of lines 103 to 114.
\<close>

definition assemble_request ::
  "window option \<Rightarrow> route \<Rightarrow> jsobj option \<Rightarrow> string \<Rightarrow> jsobj option \<Rightarrow> fetch_call" where
  "assemble_request win mapping args url1 bodyArgs =
     (let headers = auth_headers win in
      if (method mapping = GET \<or> method mapping = DELETE) \<and> args \<noteq> None then
        (let qs = URLSearchParams_toString (query_params url1 (the args) [])
         in \<lparr>input = Some (if qs \<noteq> [] then url1 @ ''?'' @ qs else url1),
             init_method = Some (method mapping), init_headers = headers, init_body = None\<rparr>)
      else if (method mapping = POST \<or> method mapping = PATCH) \<and> bodyArgs \<noteq> None then
        (let body = (if get_prop (the bodyArgs) ''request'' \<noteq> JUndefined
                     then get_prop (the bodyArgs) ''request'' else JObj (the bodyArgs))
         in \<lparr>input = Some url1, init_method = Some (method mapping), init_headers = headers,
             init_body = JSON_stringify body\<rparr>)
      else \<lparr>input = Some url1, init_method = Some (method mapping), init_headers = headers,
             init_body = None\<rparr>)"

text \<open>
  Lines 98 to 144 for a route of the table: the URL and the body-use copy, then the
  request.
\<close>

definition build_route_request :: "window option \<Rightarrow> route \<Rightarrow> jsobj option \<Rightarrow> fetch_call" where
  "build_route_request win mapping args =
     (let (url1, bodyArgs) =
            (case args of
               None \<Rightarrow> (url mapping, None)
             | Some a \<Rightarrow>
                 (let (u, b) = substitute_path a (map fst a) (url mapping, a) in (u, Some b)))
      in assemble_request win mapping args url1 bodyArgs)"

text \<open>
  Lines 92 to 144. A missing entry throws. An inherited property passes the test
  \<open>!mapping\<close> with \<open>mapping.url\<close> and \<open>mapping.method\<close> both \<open>undefined\<close>: the first
  \<open>url.includes\<close> is then a \<open>TypeError\<close>, and with no key to visit the function goes
  on to \<open>fetch\<close> with neither a query string nor a body.
\<close>

definition build_request :: "window option \<Rightarrow> string \<Rightarrow> jsobj option \<Rightarrow> js_exn + fetch_call" where
  "build_request win cmd args =
     (case COMMAND_MAPPING_get cmd of
        Missing \<Rightarrow> Inl (Error (''Command ['' @ cmd @ ''] not supported in Web mode.''))
      | Own mapping \<Rightarrow> Inr (build_route_request win mapping args)
      | Inherited \<Rightarrow>
          (if args \<noteq> None \<and> the args \<noteq> []
           then Inl (TypeError ''Cannot read properties of undefined (reading 'includes')'')
           else Inr \<lparr>input = None, init_method = None, init_headers = auth_headers win,
                     init_body = None\<rparr>))"

subsection \<open>Handling the response\<close>

text \<open>
  A response is its status and the text of its body. \<open>JSON.parse\<close> is the platform's:
  the model takes it as a parameter, \<open>None\<close> where it throws a \<open>SyntaxError\<close>, and
  \<open>response.json()\<close> is \<open>JSON.parse\<close> of the body text. Reading the body is taken to
  succeed.
\<close>

record response =
  status :: nat
  body_text :: string

datatype outcome = Resolved jsval | Rejected js_exn

definition response_ok :: "response \<Rightarrow> bool" where
  "response_ok r = (200 \<le> status r \<and> status r \<le> 299)"

text \<open>Lines 151 to 156; \<open>now\<close> is \<open>Date.now()\<close>.\<close>

definition notify_unauthorized :: "int \<Rightarrow> window \<Rightarrow> window" where
  "notify_unauthorized now w =
     (let lastAuthError = (case lastAuthErrorTime w of None \<Rightarrow> 0 | Some t \<Rightarrow> t) in
      if now - lastAuthError > 2000
      then w\<lparr>lastAuthErrorTime := Some now, dispatched := dispatched w @ [''abv-unauthorized'']\<rparr>
      else w)"

text \<open>
  \<open>errorData.error\<close>: a property read, which throws on \<open>null\<close> and \<open>undefined\<close> and
  finds nothing on a boolean, a number, a string or an array.
\<close>

fun error_member :: "jsval \<Rightarrow> js_exn + jsval" where
  "error_member JUndefined = Inl (TypeError ''Cannot read properties of undefined (reading 'error')'')"
| "error_member JNull = Inl (TypeError ''Cannot read properties of null (reading 'error')'')"
| "error_member (JObj kvs) = Inr (get_prop kvs ''error'')"
| "error_member _ = Inr JUndefined"

text \<open>
  Lines 148 to 177. Whatever is thrown inside the \<open>try\<close> block is thrown again
  unchanged by the \<open>catch\<close> of line 178. Without a \<open>window\<close> global the read of
  \<open>window\<close> in the 401 branch is a \<open>ReferenceError\<close>.
\<close>

definition handle_response ::
  "(string \<Rightarrow> jsval option) \<Rightarrow> int \<Rightarrow> window option \<Rightarrow> response \<Rightarrow> outcome \<times> window option" where
  "handle_response JSON_parse now win r =
     (if \<not> response_ok r then
        (if status r = 401 \<and> win = None then (Rejected (ReferenceError ''window is not defined''), win)
         else
           (let win' = (if status r = 401 then map_option (notify_unauthorized now) win else win);
                errorData = (case JSON_parse (body_text r) of None \<Rightarrow> JObj [] | Some v \<Rightarrow> v)
            in case error_member errorData of
                 Inl e \<Rightarrow> (Rejected e, win')
               | Inr e \<Rightarrow>
                   (Rejected (Thrown (if truthy e then e
                                      else JStr (''HTTP Error '' @ show_nat (status r)))), win')))
      else if status r = 204 then (Resolved JNull, win)
      else if body_text r = [] then (Resolved JNull, win)
      else (case JSON_parse (body_text r) of
              Some v \<Rightarrow> (Resolved v, win)
            | None \<Rightarrow> (Resolved (JStr (body_text r)), win)))"

subsection \<open>The dispatcher\<close>

text \<open>
  \<open>fetch\<close> either fails at network level or yields a response. The platform record
  holds what the module takes from its host: the verdict \<open>isTauri\<close>, the native
  \<open>invoke\<close>, \<open>fetch\<close>, \<open>JSON.parse\<close> and the clock.
\<close>

datatype fetch_result = NetworkFailure js_exn | Response response

record platform =
  isTauri :: bool
  invoke :: "string \<Rightarrow> jsobj option \<Rightarrow> outcome"
  fetch :: "fetch_call \<Rightarrow> fetch_result"
  JSON_parse :: "string \<Rightarrow> jsval option"
  Date_now :: int

text \<open>
  The browser path, lines 91 to 181. The result is the settled outcome of the promise,
  the \<open>window\<close> state afterwards and the list of calls made to \<open>fetch\<close>.
\<close>

definition request_web ::
  "platform \<Rightarrow> window option \<Rightarrow> string \<Rightarrow> jsobj option \<Rightarrow> outcome \<times> window option \<times> fetch_call list" where
  "request_web P win cmd args =
     (case build_request win cmd args of
        Inl e \<Rightarrow> (Rejected e, win, [])
      | Inr call \<Rightarrow>
          (case fetch P call of
             NetworkFailure e \<Rightarrow> (Rejected e, win, [call])
           | Response r \<Rightarrow>
               (let (res, win') = handle_response (JSON_parse P) (Date_now P) win r
                in (res, win', [call]))))"

definition request ::
  "platform \<Rightarrow> window option \<Rightarrow> string \<Rightarrow> jsobj option \<Rightarrow> outcome \<times> window option \<times> fetch_call list" where
  "request P win cmd args =
     (if isTauri P then (invoke P cmd args, win, []) else request_web P win cmd args)"

subsection \<open>The argument bag as a shared object\<close>

text \<open>
  \<open>args\<close> is a reference to the caller's object, and \<open>{ ...args }\<close> allocates a new
  one. To state what lines 98 to 114 do to the caller's object, the objects live in a
  store, a list of objects indexed by their address: the spread appends the copy at a
  fresh address, and \<open>delete bodyArgs[key]\<close> writes at the address of \<open>bodyArgs\<close>.
  The rest of \<open>request\<close> only reads \<open>args\<close> and \<open>bodyArgs\<close>.
  Lemma \<open>build_request_store_refines\<close> relates this model to \<open>build_request\<close>.
\<close>

type_synonym store = "jsobj list"

definition spread_copy :: "store \<Rightarrow> nat \<Rightarrow> store \<times> nat" where
  "spread_copy h a = (h @ [h ! a], length h)"

fun substitute_path_store ::
  "nat \<Rightarrow> nat \<Rightarrow> string list \<Rightarrow> string \<times> store \<Rightarrow> string \<times> store" where
  "substitute_path_store args bodyArgs [] (u, h) = (u, h)"
| "substitute_path_store args bodyArgs (key # keys) (u, h) =
     (let placeholder = CHR '':'' # key in
      if js_includes u placeholder
      then substitute_path_store args bodyArgs keys
             (js_replace u placeholder (encodeURIComponent (js_String (get_prop (h ! args) key))),
              h[bodyArgs := delete_prop (h ! bodyArgs) key])
      else substitute_path_store args bodyArgs keys (u, h))"

definition materialize_url :: "store \<Rightarrow> route \<Rightarrow> nat option \<Rightarrow> string \<times> nat option \<times> store" where
  "materialize_url h mapping args =
     (case args of
        None \<Rightarrow> (url mapping, None, h)
      | Some a \<Rightarrow>
          (let (h1, bodyArgs) = spread_copy h a;
               (u, h2) = substitute_path_store a bodyArgs (map fst (h1 ! a)) (url mapping, h1)
           in (u, Some bodyArgs, h2)))"

text \<open>
  Lines 92 to 144 over the store. The copy of line 100 is allocated before the loop,
  also when the lookup found an inherited property; the request is assembled from what
  the store holds at \<open>args\<close> and at \<open>bodyArgs\<close> after the loop.
\<close>

definition build_request_store ::
  "window option \<Rightarrow> store \<Rightarrow> string \<Rightarrow> nat option \<Rightarrow> (js_exn + fetch_call) \<times> store" where
  "build_request_store win h cmd args =
     (case COMMAND_MAPPING_get cmd of
        Missing \<Rightarrow> (Inl (Error (''Command ['' @ cmd @ ''] not supported in Web mode.'')), h)
      | Own mapping \<Rightarrow>
          (let (url1, bodyArgs, h') = materialize_url h mapping args
           in (Inr (assemble_request win mapping (map_option (nth h') args) url1
                      (map_option (nth h') bodyArgs)), h'))
      | Inherited \<Rightarrow>
          (case args of
             None \<Rightarrow> (Inr \<lparr>input = None, init_method = None, init_headers = auth_headers win,
                            init_body = None\<rparr>, h)
           | Some a \<Rightarrow>
               (let (h1, bodyArgs) = spread_copy h a in
                if h1 ! a \<noteq> []
                then (Inl (TypeError ''Cannot read properties of undefined (reading 'includes')''), h1)
                else (Inr \<lparr>input = None, init_method = None, init_headers = auth_headers win,
                           init_body = None\<rparr>, h1))))"

subsection \<open>Placeholders of a URL template\<close>




text \<open>The keys that the loop of lines 103 to 114 uses for the path, in order.\<close>

fun path_keys :: "jsobj \<Rightarrow> string list \<Rightarrow> string \<Rightarrow> string list" where
  "path_keys args [] u = []"
| "path_keys args (key # keys) u =
     (let placeholder = CHR '':'' # key in
      if js_includes u placeholder
      then key # path_keys args keys
                   (js_replace u placeholder (encodeURIComponent (js_String (get_prop args key))))
      else path_keys args keys u)"

subsection \<open>Derived notions used in the statements\<close>

text \<open>
  The URL after the loop of lines 103 to 114 and the body-use copy \<open>bodyArgs\<close> after
  it, for a route of the table.
\<close>

definition path_url :: "route \<Rightarrow> jsobj option \<Rightarrow> string" where
  "path_url mapping args =
     (case args of None \<Rightarrow> url mapping
      | Some a \<Rightarrow> fst (substitute_path a (map fst a) (url mapping, a)))"

definition body_use_copy :: "route \<Rightarrow> jsobj \<Rightarrow> jsobj" where
  "body_use_copy mapping a = snd (substitute_path a (map fst a) (url mapping, a))"

text \<open>
  The entries of the bag that go to the query string, said as a filter: the value is
  neither \<open>undefined\<close> nor \<open>null\<close>, and its URL-encoded string does not occur in
  the URL \<open>u\<close>. Lemma \<open>query_params_filter\<close> relates it to the loop \<open>query_params\<close>.
\<close>

definition query_entries :: "string \<Rightarrow> jsobj \<Rightarrow> jsobj" where
  "query_entries u a =
     filter (\<lambda>kv. \<not> js_includes u (encodeURIComponent (js_String (snd kv))) \<and>
                  snd kv \<noteq> JUndefined \<and> snd kv \<noteq> JNull) a"



text \<open>
  The time of the last emission as line 152 reads it (\<open>_lastAuthErrorTime || 0\<close>), and
  the payload of an error response (line 158: the parsed body, or \<open>{}\<close> when parsing
  fails).
\<close>

definition last_emission :: "window \<Rightarrow> int" where
  "last_emission w = (case lastAuthErrorTime w of None \<Rightarrow> 0 | Some t \<Rightarrow> t)"

definition error_payload :: "(string \<Rightarrow> jsval option) \<Rightarrow> response \<Rightarrow> jsval" where
  "error_payload parse r = (case parse (body_text r) of None \<Rightarrow> JObj [] | Some v \<Rightarrow> v)"

section \<open>Properties of the embedding\<close>

subsection \<open>\<open>includes\<close> and \<open>replace\<close>\<close>



subsection \<open>Colons of a URL\<close>




subsection \<open>What the encoders leave in their result\<close>

lemma of_char_hex_digit: "d < 16 \<Longrightarrow> of_char (hex_digit d) = (if d < 10 then 48 + d else 55 + d)"
  by (simp add: hex_digit_def)

lemma hex_digit_not_colon: "d < 16 \<Longrightarrow> hex_digit d \<noteq> CHR '':'' \<and> hex_digit d \<noteq> CHR ''$''"
proof -
  assume d: "d < 16"
  have "(of_char (hex_digit d) :: nat) \<noteq> of_char (CHR '':'')" "(of_char (hex_digit d) :: nat) \<noteq> of_char (CHR ''$'')"
    using d by (simp_all add: of_char_hex_digit)
  then show ?thesis by auto
qed

lemma byte_div_16: "(n::nat) < 256 \<Longrightarrow> n div 16 < 16"
  by arith

lemma percent_encode_chars: "x \<in> set (percent_encode c) \<Longrightarrow> x \<noteq> CHR '':'' \<and> x \<noteq> CHR ''$''"
proof -
  assume x: "x \<in> set (percent_encode c)"
  have "(of_char c :: nat) div 16 < 16" by (rule byte_div_16) simp
  moreover have "(of_char c :: nat) mod 16 < 16" by simp
  ultimately have "(of_char c :: nat) div 16 < 16" "(of_char c :: nat) mod 16 < 16" by auto
  then show ?thesis using x hex_digit_not_colon
    by (auto simp: percent_encode_def Let_def)
qed

lemma uri_unreserved_not_colon: "uri_unreserved c \<Longrightarrow> c \<noteq> CHR '':'' \<and> c \<noteq> CHR ''$''"
  by (auto simp: uri_unreserved_def is_alnum_def)


lemma encodeURIComponent_no_dollar: "CHR ''$'' \<notin> set (encodeURIComponent s)"
  using percent_encode_chars uri_unreserved_not_colon
  by (auto simp: encodeURIComponent_def split: if_splits)


subsection \<open>The substitution loop resolves every placeholder\<close>
















subsection \<open>The two loops as filters\<close>

lemma query_params_filter:
  "query_params u entries params =
     params @ map (\<lambda>kv. (fst kv, js_String (snd kv))) (query_entries u entries)"
  by (induction u entries params rule: query_params.induct) (auto simp: query_entries_def)

lemma substitute_path_body:
  "snd (substitute_path args ks (u, b)) = filter (\<lambda>kv. fst kv \<notin> set (path_keys args ks u)) b"
proof (induction ks arbitrary: u b)
  case Nil
  then show ?case by simp
next
  case (Cons k ks)
  show ?case
  proof (cases "js_includes u (CHR '':'' # k)")
    case True
    then show ?thesis using Cons.IH by (simp add: delete_prop_def conj_commute)
  next
    case False
    then show ?thesis using Cons.IH by simp
  qed
qed

lemma path_keys_subset: "set (path_keys args ks u) \<subseteq> set ks"
  by (induction ks arbitrary: u) (auto simp: Let_def)

subsection \<open>The query string\<close>


lemma join_with_empty: "join_with sep xs = [] \<longleftrightarrow> (\<forall>x \<in> set xs. x = []) \<and> (sep = [] \<or> length xs \<le> 1)"
  by (induction sep xs rule: join_with.induct) auto

lemma URLSearchParams_toString_empty: "URLSearchParams_toString q = [] \<longleftrightarrow> q = []"
  by (cases q) (auto simp: URLSearchParams_toString_def join_with_empty split: prod.splits)


subsection \<open>The request by verb\<close>

lemma build_route_request_get:
  assumes "method r = GET \<or> method r = DELETE"
  shows "build_route_request win r (Some a) =
     (let u = path_url r (Some a);
          q = map (\<lambda>kv. (fst kv, js_String (snd kv))) (query_entries u a)
      in \<lparr>input = Some (if q = [] then u else u @ ''?'' @ URLSearchParams_toString q),
          init_method = Some (method r), init_headers = auth_headers win, init_body = None\<rparr>)"
  using assms
  by (auto simp: build_route_request_def assemble_request_def path_url_def Let_def query_params_filter
      URLSearchParams_toString_empty split: prod.splits)


lemma build_route_request_no_args:
  "build_route_request win r None =
     \<lparr>input = Some (url r), init_method = Some (method r), init_headers = auth_headers win,
      init_body = None\<rparr>"
  by (simp add: build_route_request_def assemble_request_def)




lemma COMMAND_MAPPING_distinct: "distinct (map fst COMMAND_MAPPING)"
  by code_simp


lemma command_lookup_iff: "COMMAND_MAPPING_get cmd = Own r \<longleftrightarrow> map_of COMMAND_MAPPING cmd = Some r"
  by (auto simp: COMMAND_MAPPING_get_def split: option.splits)

lemma build_request_own:
  "COMMAND_MAPPING_get cmd = Own r \<Longrightarrow> build_request win cmd args = Inr (build_route_request win r args)"
  by (simp add: build_request_def)


subsection \<open>The dispatcher and the response\<close>

lemma request_browser_mode: "\<not> isTauri P \<Longrightarrow> request P win cmd args = request_web P win cmd args"
  by (simp add: request_def)

lemma request_web_response:
  assumes "build_request win cmd args = Inr call" and "fetch P call = Response r"
  shows "request_web P win cmd args =
           (fst (handle_response (JSON_parse P) (Date_now P) win r),
            snd (handle_response (JSON_parse P) (Date_now P) win r), [call])"
  using assms by (simp add: request_web_def split: prod.splits)

lemma request_web_missing:
  "COMMAND_MAPPING_get cmd = Missing \<Longrightarrow>
   request_web P win cmd args =
     (Rejected (Error (''Command ['' @ cmd @ ''] not supported in Web mode.'')), win, [])"
  by (simp add: request_web_def build_request_def)

lemma path_key_not_in_body:
  "k \<in> set (path_keys a (map fst a) (url r)) \<Longrightarrow> k \<notin> fst ` set (body_use_copy r a)"
  by (auto simp: body_use_copy_def substitute_path_body)

lemma value_in_path_not_in_query:
  assumes "(k, v) \<in> set a" and "distinct (map fst a)"
    and "js_includes u (encodeURIComponent (js_String v))"
  shows "k \<notin> fst ` set (query_entries u a)"
proof
  assume "k \<in> fst ` set (query_entries u a)"
  then obtain v' where v': "(k, v') \<in> set a"
    "\<not> js_includes u (encodeURIComponent (js_String v'))"
    by (auto simp: query_entries_def)
  have "v' = v" using assms(1,2) v'(1) by (meson eq_key_imp_eq_value)
  then show False using assms(3) v'(2) by simp
qed

lemma show_nat_401: "show_nat 401 = ''401''"
  by code_simp

lemma show_nat_500: "show_nat 500 = ''500''"
  by code_simp

lemma handle_response_error:
  assumes "\<not> response_ok r" and "status r = 401 \<longrightarrow> win \<noteq> None"
    and "error_payload parse r \<noteq> JNull" and "error_payload parse r \<noteq> JUndefined"
  shows "fst (handle_response parse now win r) =
     Rejected (Thrown
       (let e = (case error_payload parse r of JObj kvs \<Rightarrow> get_prop kvs ''error'' | _ \<Rightarrow> JUndefined)
        in if truthy e then e else JStr (''HTTP Error '' @ show_nat (status r))))"
proof -
  let ?d = "error_payload parse r"
  have d: "(case parse (body_text r) of None \<Rightarrow> JObj [] | Some v \<Rightarrow> v) = ?d"
    by (simp add: error_payload_def)
  have m: "error_member ?d = Inr (case ?d of JObj kvs \<Rightarrow> get_prop kvs ''error'' | _ \<Rightarrow> JUndefined)"
    using assms(3,4) by (cases ?d) simp_all
  show ?thesis
    using assms(1,2) unfolding handle_response_def Let_def d m by simp
qed

lemma handle_response_401:
  assumes "status r = 401"
  shows "snd (handle_response parse now (Some w) r) = Some (notify_unauthorized now w)"
  using assms
  by (simp add: handle_response_def response_ok_def Let_def split: sum.splits)

lemma notify_unauthorized_dispatched:
  "dispatched (notify_unauthorized now w) =
     dispatched w @ (if now - last_emission w > 2000 then [''abv-unauthorized''] else [])"
  by (simp add: notify_unauthorized_def last_emission_def Let_def)

lemma notify_unauthorized_last:
  "last_emission (notify_unauthorized now w) =
     (if now - last_emission w > 2000 then now else last_emission w)"
  by (simp add: notify_unauthorized_def last_emission_def Let_def)




subsection \<open>The store\<close>

lemma substitute_path_store_refines:
  "a < length h \<Longrightarrow> b < length h \<Longrightarrow> a \<noteq> b \<Longrightarrow>
   substitute_path_store a b ks (u, h) =
     (fst (substitute_path (h ! a) ks (u, h ! b)),
      h[b := snd (substitute_path (h ! a) ks (u, h ! b))])"
proof (induction ks arbitrary: u h)
  case Nil
  then show ?case by simp
next
  case (Cons k ks)
  show ?case
  proof (cases "js_includes u (CHR '':'' # k)")
    case True
    let ?h = "h[b := delete_prop (h ! b) k]"
    let ?u = "js_replace u (CHR '':'' # k) (encodeURIComponent (js_String (get_prop (h ! a) k)))"
    have "substitute_path_store a b ks (?u, ?h) =
        (fst (substitute_path (?h ! a) ks (?u, ?h ! b)),
         ?h[b := snd (substitute_path (?h ! a) ks (?u, ?h ! b))])"
      using Cons.prems by (intro Cons.IH) simp_all
    moreover have "?h ! a = h ! a" "?h ! b = delete_prop (h ! b) k"
      using Cons.prems by simp_all
    ultimately show ?thesis using True by (simp add: Let_def)
  next
    case False
    then show ?thesis using Cons.IH[OF Cons.prems] by (simp add: Let_def)
  qed
qed

lemma materialize_url_refines:
  assumes "a < length h"
  shows "materialize_url h r (Some a) =
     (fst (substitute_path (h ! a) (map fst (h ! a)) (url r, h ! a)), Some (length h),
      h @ [snd (substitute_path (h ! a) (map fst (h ! a)) (url r, h ! a))])"
proof -
  let ?h1 = "h @ [h ! a]"
  let ?res = "substitute_path (h ! a) (map fst (h ! a)) (url r, h ! a)"
  have a1: "?h1 ! a = h ! a" using assms by (simp add: nth_append)
  have "substitute_path_store a (length h) (map fst (h ! a)) (url r, ?h1) =
      (fst (substitute_path (?h1 ! a) (map fst (h ! a)) (url r, ?h1 ! length h)),
       ?h1[length h := snd (substitute_path (?h1 ! a) (map fst (h ! a)) (url r, ?h1 ! length h))])"
    using assms by (intro substitute_path_store_refines) simp_all
  then have "substitute_path_store a (length h) (map fst (h ! a)) (url r, ?h1) =
      (fst ?res, h @ [snd ?res])"
    using a1 by simp
  then show ?thesis using a1 by (simp add: materialize_url_def spread_copy_def)
qed

lemma build_request_store_refines:
  assumes "a < length h"
  shows "fst (build_request_store win h cmd (Some a)) = build_request win cmd (Some (h ! a))"
proof (cases "COMMAND_MAPPING_get cmd")
  case Missing
  then show ?thesis by (simp add: build_request_store_def build_request_def)
next
  case (Own r)
  let ?res = "substitute_path (h ! a) (map fst (h ! a)) (url r, h ! a)"
  have "(h @ [snd ?res]) ! a = h ! a" using assms by (simp add: nth_append)
  then show ?thesis
    using Own assms
    by (simp add: build_request_store_def build_request_def materialize_url_refines
        build_route_request_def split: prod.splits)
next
  case Inherited
  then show ?thesis
    using assms
    by (simp add: build_request_store_def build_request_def spread_copy_def nth_append)
qed

lemma build_request_store_frame:
  assumes "a < length h"
  shows "take (length h) (snd (build_request_store win h cmd (Some a))) = h"
proof (cases "COMMAND_MAPPING_get cmd")
  case Missing
  then show ?thesis by (simp add: build_request_store_def)
next
  case (Own r)
  then show ?thesis using assms
    by (simp add: build_request_store_def materialize_url_refines)
next
  case Inherited
  then show ?thesis
    by (simp add: build_request_store_def spread_copy_def)
qed

subsection \<open>What a GET or DELETE request is\<close>

text \<open>
  For a route whose verb is GET or DELETE the request has no body, whatever the bag is,
  and its query string is made of the entries of the original bag that pass the two
  tests of lines 133 and 134, in the order of the bag.
\<close>

lemma get_delete_request:
  "(COMMAND_MAPPING_get cmd = Own r \<and> (method r = GET \<or> method r = DELETE) \<longrightarrow>
      (\<exists>c. build_request win cmd args = Inr c \<and> init_body c = None \<and>
           init_method c = Some (method r) \<and>
           (case args of
              None \<Rightarrow> input c = Some (url r)
            | Some a \<Rightarrow>
                (let u = path_url r (Some a); q = query_entries u a in
                 input c = Some (if q = [] then u
                                 else u @ ''?'' @ URLSearchParams_toString
                                        (map (\<lambda>kv. (fst kv, js_String (snd kv))) q)) \<and>
                 subseq (map fst q) (map fst a))))) \<and>
   build_request win ''fetch_account_quota''
     (Some [(''accountId'', JStr ''abc123''), (''extra'', JStr ''x'')]) =
     Inr \<lparr>input = Some ''/api/accounts/abc123/quota?extra=x'', init_method = Some GET,
          init_headers = auth_headers win, init_body = None\<rparr>"
proof (intro conjI impI)
  assume h: "COMMAND_MAPPING_get cmd = Own r \<and> (method r = GET \<or> method r = DELETE)"
  then have b: "build_request win cmd args = Inr (build_route_request win r args)"
    by (simp add: build_request_own)
  show "\<exists>c. build_request win cmd args = Inr c \<and> init_body c = None \<and>
           init_method c = Some (method r) \<and>
           (case args of
              None \<Rightarrow> input c = Some (url r)
            | Some a \<Rightarrow>
                (let u = path_url r (Some a); q = query_entries u a in
                 input c = Some (if q = [] then u
                                 else u @ ''?'' @ URLSearchParams_toString
                                        (map (\<lambda>kv. (fst kv, js_String (snd kv))) q)) \<and>
                 subseq (map fst q) (map fst a)))"
  proof (cases args)
    case None
    then show ?thesis using b by (simp add: build_route_request_no_args)
  next
    case (Some a)
    have "subseq (map fst (query_entries (path_url r (Some a)) a)) (map fst a)"
      unfolding query_entries_def by (intro subseq_map subseq_filter_left)
    then show ?thesis using b Some h by (simp add: build_route_request_get Let_def)
  qed
next
  show "build_request win ''fetch_account_quota''
     (Some [(''accountId'', JStr ''abc123''), (''extra'', JStr ''x'')]) =
     Inr \<lparr>input = Some ''/api/accounts/abc123/quota?extra=x'', init_method = Some GET,
          init_headers = auth_headers win, init_body = None\<rparr>"
    by code_simp
qed

section \<open>The claims\<close>

text \<open>
  Claim C1. A key that the loop of lines 103 to 114 used for the path is never a key of
  the body-use copy (lemma \<open>path_key_not_in_body\<close>), and it stays out of the query
  string as long as its encoded value still occurs in the URL (lemma
  \<open>value_in_path_not_in_query\<close>). The GET and DELETE branch, however, filters the
  entries of the original bag by that occurrence and not by the key. For
  \<open>delete_device_version\<close> with the bag
  \<open>{versionId: "v1", "accountId/device-versions/v1": "a"}\<close> both keys are used for
  the path, the second substitution removes the value of the first from the URL, and
  the request is \<open>DELETE /api/accounts/a?versionId=v1\<close>: the key \<open>versionId\<close>,
  used for the path, is sent in the query string as well.
\<close>

theorem path_key_repeated_in_query:
  "path_keys [(''versionId'', JStr ''v1''), (''accountId/device-versions/v1'', JStr ''a'')]
     [''versionId'', ''accountId/device-versions/v1'']
     ''/api/accounts/:accountId/device-versions/:versionId'' =
     [''versionId'', ''accountId/device-versions/v1''] \<and>
   build_request win ''delete_device_version''
     (Some [(''versionId'', JStr ''v1''), (''accountId/device-versions/v1'', JStr ''a'')]) =
     Inr \<lparr>input = Some ''/api/accounts/a?versionId=v1'', init_method = Some DELETE,
          init_headers = auth_headers win, init_body = None\<rparr>"
  by code_simp

text \<open>
  Claim C2. A GET or DELETE request never has a body, its query string keeps the order
  of the bag, and \<open>fetch_account_quota\<close> with \<open>{accountId: "abc123", extra: "x"}\<close>
  gives \<open>GET /api/accounts/abc123/quota?extra=x\<close> (lemma \<open>get_delete_request\<close>). The
  keys appended, however, are not only the remaining ones: the loop of lines 131 to 137
  runs over the original bag and leaves out a key used for the path only while its
  encoded value occurs in the URL. For \<open>delete_device_version\<close> with the bag
  \<open>{versionId: "v1", "accountId/device-versions/v1": "a"}\<close> the loop of lines 103
  to 114 uses both keys, so that no key remains in the body-use copy, the URL after it
  is \<open>/api/accounts/a\<close>, and the query loop still appends \<open>versionId=v1\<close>.
\<close>

theorem consumed_key_appended_to_query:
  "COMMAND_MAPPING_get ''delete_device_version'' =
     Own \<lparr>url = ''/api/accounts/:accountId/device-versions/:versionId'', method = DELETE\<rparr> \<and>
   body_use_copy \<lparr>url = ''/api/accounts/:accountId/device-versions/:versionId'', method = DELETE\<rparr>
     [(''versionId'', JStr ''v1''), (''accountId/device-versions/v1'', JStr ''a'')] = [] \<and>
   path_url \<lparr>url = ''/api/accounts/:accountId/device-versions/:versionId'', method = DELETE\<rparr>
     (Some [(''versionId'', JStr ''v1''), (''accountId/device-versions/v1'', JStr ''a'')]) =
     ''/api/accounts/a'' \<and>
   query_params ''/api/accounts/a''
     [(''versionId'', JStr ''v1''), (''accountId/device-versions/v1'', JStr ''a'')] [] =
     [(''versionId'', ''v1'')] \<and>
   build_request None ''delete_device_version''
     (Some [(''versionId'', JStr ''v1''), (''accountId/device-versions/v1'', JStr ''a'')]) =
     Inr \<lparr>input = Some ''/api/accounts/a?versionId=v1'', init_method = Some DELETE,
          init_headers = [(''Content-Type'', ''application/json'')], init_body = None\<rparr>"
  by code_simp






text \<open>
  Claim C5. A command for which \<open>COMMAND_MAPPING[cmd]\<close> is \<open>undefined\<close> is rejected
  with the error naming it and without any call to \<open>fetch\<close> (lemma
  \<open>request_web_missing\<close>). The command \<open>constructor\<close> is not an entry of the table,
  but the lookup finds \<open>Object.prototype.constructor\<close>, the test \<open>!mapping\<close> fails,
  and without a bag the dispatch goes on to call \<open>fetch\<close> with \<open>undefined\<close> as URL
  and as method.
\<close>

theorem inherited_command_reaches_fetch:
  "map_of COMMAND_MAPPING ''constructor'' = None \<and>
   snd (snd (request_web P win ''constructor'' None)) =
     [\<lparr>input = None, init_method = None, init_headers = auth_headers win, init_body = None\<rparr>]"
proof -
  have m: "map_of COMMAND_MAPPING ''constructor'' = None" by code_simp
  have "COMMAND_MAPPING_get ''constructor'' = Inherited"
    using m by (simp add: COMMAND_MAPPING_get_def Object_prototype_keys_def)
  then have "build_request win ''constructor'' None =
      Inr \<lparr>input = None, init_method = None, init_headers = auth_headers win, init_body = None\<rparr>"
    by (simp add: build_request_def)
  then show ?thesis using m
    by (simp add: request_web_def split: fetch_result.splits prod.splits)
qed

text \<open>
  Claim C6 says that the call rejects with the \<open>error\<close> field whenever the payload has
  one. Line 159 throws \<open>errorData.error || ...\<close>: a response with status 500 and body
  \<open>{"error":""}\<close> has the field, and the call rejects with \<open>HTTP Error 500\<close>.
\<close>

theorem empty_error_field_not_thrown:
  \<open>\<not> response_ok \<lparr>status = 500, body_text = ''{"error":""}''\<rparr> \<and>
   error_payload [''{"error":""}'' \<mapsto> JObj [(''error'', JStr '''')]]
     \<lparr>status = 500, body_text = ''{"error":""}''\<rparr> = JObj [(''error'', JStr '''')] \<and>
   handle_response [''{"error":""}'' \<mapsto> JObj [(''error'', JStr '''')]] 0 None
     \<lparr>status = 500, body_text = ''{"error":""}''\<rparr> =
     (Rejected (Thrown (JStr ''HTTP Error 500'')), None)\<close>
  by (simp add: response_ok_def error_payload_def handle_response_def get_prop_def show_nat_500)

text \<open>
  Claim C6, amended. For a response whose status is not 2xx (with a \<open>window\<close> global
  when the status is 401, and a payload that is not \<open>null\<close>), the call rejects with
  the \<open>error\<close> field of the payload when that field is present and truthy, and
  otherwise with the string \<open>HTTP Error\<close> followed by the status code; a body that does
  not parse counts as the empty payload \<open>{}\<close>. A 403 response with body
  \<open>{"error":"forbidden"}\<close> makes the call reject with the string \<open>forbidden\<close>.
\<close>

theorem error_response_rejection:
  \<open>(build_request win cmd args = Inr call \<and> fetch P call = Response r \<and> \<not> response_ok r \<and>
    (status r = 401 \<longrightarrow> win \<noteq> None) \<and>
    error_payload (JSON_parse P) r \<noteq> JNull \<and> error_payload (JSON_parse P) r \<noteq> JUndefined \<longrightarrow>
      fst (request_web P win cmd args) =
        Rejected (Thrown
          (let e = (case error_payload (JSON_parse P) r of
                      JObj kvs \<Rightarrow> get_prop kvs ''error'' | _ \<Rightarrow> JUndefined)
           in if truthy e then e else JStr (''HTTP Error '' @ show_nat (status r))))) \<and>
   (build_request win cmd args = Inr call \<and>
    fetch P call = Response \<lparr>status = 403, body_text = ''{"error":"forbidden"}''\<rparr> \<and>
    JSON_parse P ''{"error":"forbidden"}'' = Some (JObj [(''error'', JStr ''forbidden'')]) \<longrightarrow>
      fst (request_web P win cmd args) = Rejected (Thrown (JStr ''forbidden'')))\<close>
proof (intro conjI impI)
  assume h: "build_request win cmd args = Inr call \<and> fetch P call = Response r \<and> \<not> response_ok r \<and>
    (status r = 401 \<longrightarrow> win \<noteq> None) \<and>
    error_payload (JSON_parse P) r \<noteq> JNull \<and> error_payload (JSON_parse P) r \<noteq> JUndefined"
  then have "fst (request_web P win cmd args) =
      fst (handle_response (JSON_parse P) (Date_now P) win r)"
    by (simp add: request_web_response)
  then show "fst (request_web P win cmd args) =
        Rejected (Thrown
          (let e = (case error_payload (JSON_parse P) r of
                      JObj kvs \<Rightarrow> get_prop kvs ''error'' | _ \<Rightarrow> JUndefined)
           in if truthy e then e else JStr (''HTTP Error '' @ show_nat (status r))))"
    using h handle_response_error by simp
next
  let ?r = \<open>\<lparr>status = 403, body_text = ''{"error":"forbidden"}''\<rparr>\<close>
  assume h: \<open>build_request win cmd args = Inr call \<and>
    fetch P call = Response ?r \<and>
    JSON_parse P ''{"error":"forbidden"}'' = Some (JObj [(''error'', JStr ''forbidden'')])\<close>
  then have "fst (request_web P win cmd args) =
      fst (handle_response (JSON_parse P) (Date_now P) win ?r)"
    by (simp add: request_web_response)
  moreover have "fst (handle_response (JSON_parse P) (Date_now P) win ?r) =
      Rejected (Thrown (JStr ''forbidden''))"
    using h by (simp add: handle_response_def response_ok_def get_prop_def)
  ultimately show "fst (request_web P win cmd args) = Rejected (Thrown (JStr ''forbidden''))"
    by simp
qed

theorem error_response_rejection_witness:
  \<open>build_request None ''load_config'' None =
     Inr \<lparr>input = Some ''/api/config'', init_method = Some GET,
          init_headers = [(''Content-Type'', ''application/json'')], init_body = None\<rparr> \<and>
   \<not> response_ok \<lparr>status = 403, body_text = ''{"error":"forbidden"}''\<rparr> \<and>
   status \<lparr>status = 403, body_text = ''{"error":"forbidden"}''\<rparr> \<noteq> 401 \<and>
   error_payload [''{"error":"forbidden"}'' \<mapsto> JObj [(''error'', JStr ''forbidden'')]]
     \<lparr>status = 403, body_text = ''{"error":"forbidden"}''\<rparr> = JObj [(''error'', JStr ''forbidden'')] \<and>
   fst (request_web
          \<lparr>isTauri = False, invoke = (\<lambda>c a. Resolved JNull),
           fetch = (\<lambda>c. Response \<lparr>status = 403, body_text = ''{"error":"forbidden"}''\<rparr>),
           JSON_parse = [''{"error":"forbidden"}'' \<mapsto> JObj [(''error'', JStr ''forbidden'')]],
           Date_now = 0\<rparr> None ''load_config'' None) = Rejected (Thrown (JStr ''forbidden''))\<close>
proof -
  let ?call = "\<lparr>input = Some ''/api/config'', init_method = Some GET,
          init_headers = [(''Content-Type'', ''application/json'')], init_body = None\<rparr>"
  let ?r = \<open>\<lparr>status = 403, body_text = ''{"error":"forbidden"}''\<rparr>\<close>
  let ?parse = \<open>[''{"error":"forbidden"}'' \<mapsto> JObj [(''error'', JStr ''forbidden'')]]\<close>
  let ?P = "\<lparr>isTauri = False, invoke = (\<lambda>c a. Resolved JNull),
           fetch = (\<lambda>c. Response ?r), JSON_parse = ?parse, Date_now = 0\<rparr>"
  have b: "build_request None ''load_config'' None = Inr ?call" by code_simp
  have nok: "\<not> response_ok ?r" by (simp add: response_ok_def)
  have pl: "error_payload ?parse ?r = JObj [(''error'', JStr ''forbidden'')]"
    by (simp add: error_payload_def)
  have "fst (request_web ?P None ''load_config'' None) = Rejected (Thrown (JStr ''forbidden''))"
    using error_response_rejection[of None "''load_config''" None ?call ?P ?r] b nok pl
    by (simp add: get_prop_def)
  then show ?thesis using b nok pl by simp
qed

text \<open>
  Claim C7. For a 2xx response the call resolves: with \<open>null\<close> when the status is
  204 or the body is empty, with the parsed value when the non-empty body parses as
  JSON, and with the body text itself when it does not. The \<open>window\<close> state is left
  as it was.
\<close>

theorem success_response_normalized:
  "build_request win cmd args = Inr call \<and> fetch P call = Response r \<and> response_ok r \<longrightarrow>
   request_web P win cmd args =
     (Resolved (if status r = 204 \<or> body_text r = [] then JNull
                else (case JSON_parse P (body_text r) of
                        Some v \<Rightarrow> v
                      | None \<Rightarrow> JStr (body_text r))), win, [call])"
  by (auto simp: request_web_response handle_response_def split: option.splits)

theorem success_response_normalized_witness:
  "build_request None ''load_config'' None =
     Inr \<lparr>input = Some ''/api/config'', init_method = Some GET,
          init_headers = [(''Content-Type'', ''application/json'')], init_body = None\<rparr> \<and>
   response_ok \<lparr>status = 200, body_text = ''<html>''\<rparr> \<and>
   request_web \<lparr>isTauri = False, invoke = (\<lambda>c a. Resolved JNull),
                fetch = (\<lambda>c. Response \<lparr>status = 200, body_text = ''<html>''\<rparr>),
                JSON_parse = Map.empty, Date_now = 0\<rparr> None ''load_config'' None =
     (Resolved (JStr ''<html>''), None,
      [\<lparr>input = Some ''/api/config'', init_method = Some GET,
         init_headers = [(''Content-Type'', ''application/json'')], init_body = None\<rparr>])"
proof -
  let ?call = "\<lparr>input = Some ''/api/config'', init_method = Some GET,
          init_headers = [(''Content-Type'', ''application/json'')], init_body = None\<rparr>"
  let ?r = "\<lparr>status = 200, body_text = ''<html>''\<rparr>"
  let ?P = "\<lparr>isTauri = False, invoke = (\<lambda>c a. Resolved JNull),
                fetch = (\<lambda>c. Response ?r), JSON_parse = Map.empty, Date_now = 0\<rparr>"
  have b: "build_request None ''load_config'' None = Inr ?call" by code_simp
  have ok: "response_ok ?r" by (simp add: response_ok_def)
  have f: "fetch ?P ?call = Response ?r" by simp
  show ?thesis using b ok success_response_normalized[of None "''load_config''" None ?call ?P ?r] by simp
qed

text \<open>
  Claim C8. A 401 response dispatches \<open>abv-unauthorized\<close> exactly when more than
  2000 ms have passed since the time stored at the last emission
  (\<open>_lastAuthErrorTime\<close>, or 0). Of two 401 responses at times \<open>t1\<close> and \<open>t2\<close>, the
  first one emitting: when \<open>t2 - t1\<close> is at most 2000 the event is dispatched once in
  all, when it is more than 2000, and so at 2100, twice.
\<close>

theorem unauthorized_debounced:
  "status r1 = 401 \<and> status r2 = 401 \<and>
   handle_response parse1 t1 (Some w) r1 = (o1, win1) \<and>
   handle_response parse2 t2 win1 r2 = (o2, win2) \<longrightarrow>
     (\<exists>w1 w2. win1 = Some w1 \<and> win2 = Some w2 \<and>
        dispatched w1 =
          dispatched w @ (if t1 - last_emission w > 2000 then [''abv-unauthorized''] else []) \<and>
        dispatched w2 =
          dispatched w1 @ (if t2 - last_emission w1 > 2000 then [''abv-unauthorized''] else []) \<and>
        (t1 - last_emission w > 2000 \<longrightarrow>
           last_emission w1 = t1 \<and>
           (t2 - t1 \<le> 2000 \<longrightarrow> dispatched w2 = dispatched w @ [''abv-unauthorized'']) \<and>
           (t2 - t1 > 2000 \<longrightarrow>
              dispatched w2 = dispatched w @ [''abv-unauthorized'', ''abv-unauthorized'']) \<and>
           (t2 = t1 + 2100 \<longrightarrow>
              dispatched w2 = dispatched w @ [''abv-unauthorized'', ''abv-unauthorized''])))"
proof (intro impI)
  assume h: "status r1 = 401 \<and> status r2 = 401 \<and>
   handle_response parse1 t1 (Some w) r1 = (o1, win1) \<and>
   handle_response parse2 t2 win1 r2 = (o2, win2)"
  let ?w1 = "notify_unauthorized t1 w"
  let ?w2 = "notify_unauthorized t2 ?w1"
  have w1: "win1 = Some ?w1" using h handle_response_401[of r1 parse1 t1 w] by simp
  then have w2: "win2 = Some ?w2" using h handle_response_401[of r2 parse2 t2 ?w1] by simp
  show "\<exists>w1 w2. win1 = Some w1 \<and> win2 = Some w2 \<and>
        dispatched w1 =
          dispatched w @ (if t1 - last_emission w > 2000 then [''abv-unauthorized''] else []) \<and>
        dispatched w2 =
          dispatched w1 @ (if t2 - last_emission w1 > 2000 then [''abv-unauthorized''] else []) \<and>
        (t1 - last_emission w > 2000 \<longrightarrow>
           last_emission w1 = t1 \<and>
           (t2 - t1 \<le> 2000 \<longrightarrow> dispatched w2 = dispatched w @ [''abv-unauthorized'']) \<and>
           (t2 - t1 > 2000 \<longrightarrow>
              dispatched w2 = dispatched w @ [''abv-unauthorized'', ''abv-unauthorized'']) \<and>
           (t2 = t1 + 2100 \<longrightarrow>
              dispatched w2 = dispatched w @ [''abv-unauthorized'', ''abv-unauthorized'']))"
    using w1 w2 by (simp add: notify_unauthorized_dispatched notify_unauthorized_last)
qed

theorem unauthorized_debounced_witness:
  "status \<lparr>status = 401, body_text = ''''\<rparr> = 401 \<and>
   handle_response Map.empty 1700000000000
     (Some \<lparr>sessionStorage = Map.empty, lastAuthErrorTime = None, dispatched = []\<rparr>)
     \<lparr>status = 401, body_text = ''''\<rparr> =
     (Rejected (Thrown (JStr ''HTTP Error 401'')),
      Some \<lparr>sessionStorage = Map.empty, lastAuthErrorTime = Some 1700000000000,
            dispatched = [''abv-unauthorized'']\<rparr>) \<and>
   handle_response Map.empty 1700000002100
     (Some \<lparr>sessionStorage = Map.empty, lastAuthErrorTime = Some 1700000000000,
            dispatched = [''abv-unauthorized'']\<rparr>)
     \<lparr>status = 401, body_text = ''''\<rparr> =
     (Rejected (Thrown (JStr ''HTTP Error 401'')),
      Some \<lparr>sessionStorage = Map.empty, lastAuthErrorTime = Some 1700000002100,
            dispatched = [''abv-unauthorized'', ''abv-unauthorized'']\<rparr>) \<and>
   (\<exists>w1 w2.
      Some \<lparr>sessionStorage = Map.empty, lastAuthErrorTime = Some 1700000000000,
            dispatched = [''abv-unauthorized'']\<rparr> = Some w1 \<and>
      Some \<lparr>sessionStorage = Map.empty, lastAuthErrorTime = Some 1700000002100,
            dispatched = [''abv-unauthorized'', ''abv-unauthorized'']\<rparr> = Some w2 \<and>
      last_emission w1 = 1700000000000 \<and>
      dispatched w2 = [''abv-unauthorized'', ''abv-unauthorized''])"
proof -
  let ?r = "\<lparr>status = 401, body_text = ''''\<rparr>"
  let ?w = "\<lparr>sessionStorage = Map.empty, lastAuthErrorTime = None, dispatched = []\<rparr>"
  let ?w1 = "\<lparr>sessionStorage = Map.empty, lastAuthErrorTime = Some 1700000000000,
            dispatched = [''abv-unauthorized'']\<rparr>"
  let ?w2 = "\<lparr>sessionStorage = Map.empty, lastAuthErrorTime = Some 1700000002100,
            dispatched = [''abv-unauthorized'', ''abv-unauthorized'']\<rparr>"
  let ?o = "Rejected (Thrown (JStr ''HTTP Error 401''))"
  have s: "status ?r = 401" by simp
  have e1: "handle_response Map.empty 1700000000000 (Some ?w) ?r = (?o, Some ?w1)"
    by (simp add: handle_response_def response_ok_def notify_unauthorized_def get_prop_def show_nat_401)
  have e2: "handle_response Map.empty 1700000002100 (Some ?w1) ?r = (?o, Some ?w2)"
    by (simp add: handle_response_def response_ok_def notify_unauthorized_def get_prop_def show_nat_401)
  have q: "(1700000000000::int) - last_emission ?w > 2000" by (simp add: last_emission_def)
  have "\<exists>w1 w2. Some ?w1 = Some w1 \<and> Some ?w2 = Some w2 \<and>
      last_emission w1 = 1700000000000 \<and>
      dispatched w2 = [''abv-unauthorized'', ''abv-unauthorized'']"
    using unauthorized_debounced[of ?r ?r Map.empty 1700000000000 ?w ?o "Some ?w1" Map.empty 1700000002100 ?o "Some ?w2"]
      s e1 e2 q
    by simp
  then show ?thesis using s e1 e2 by blast
qed




text \<open>
  Claim C10. With the objects in a store and the bag passed by its address, a
  browser-mode dispatch leaves the caller's bag, and every other object that existed
  before the call, as it was: the keys used for the path are deleted from the copy
  that the spread allocates at a fresh address. The request built is the one
  \<open>build_request\<close> computes from the value of the bag.
\<close>

theorem caller_args_unchanged:
  "a < length h \<and> build_request_store win h cmd (Some a) = (res, h') \<longrightarrow>
     h' ! a = h ! a \<and> take (length h) h' = h \<and> res = build_request win cmd (Some (h ! a))"
proof
  assume p: "a < length h \<and> build_request_store win h cmd (Some a) = (res, h')"
  then have t: "take (length h) h' = h" using build_request_store_frame[of a h win cmd] by simp
  have "h' ! a = take (length h) h' ! a" using p by simp
  then have "h' ! a = h ! a" using t by simp
  moreover have "res = build_request win cmd (Some (h ! a))"
    using p build_request_store_refines[of a h win cmd] by simp
  ultimately show "h' ! a = h ! a \<and> take (length h) h' = h \<and>
      res = build_request win cmd (Some (h ! a))"
    using t by simp
qed

theorem caller_args_unchanged_witness:
  "(0::nat) < length [[(''accountId'', JStr ''abc''), (''label'', JStr ''x'')]] \<and>
   build_request_store None [[(''accountId'', JStr ''abc''), (''label'', JStr ''x'')]]
     ''update_account_label'' (Some 0) =
     (build_request None ''update_account_label''
        (Some ([[(''accountId'', JStr ''abc''), (''label'', JStr ''x'')]] ! 0)),
      [[(''accountId'', JStr ''abc''), (''label'', JStr ''x'')], [(''label'', JStr ''x'')]]) \<and>
   [[(''accountId'', JStr ''abc''), (''label'', JStr ''x'')], [(''label'', JStr ''x'')]] ! 0 =
     [[(''accountId'', JStr ''abc''), (''label'', JStr ''x'')]] ! 0 \<and>
   take (length [[(''accountId'', JStr ''abc''), (''label'', JStr ''x'')]])
     [[(''accountId'', JStr ''abc''), (''label'', JStr ''x'')], [(''label'', JStr ''x'')]] =
     [[(''accountId'', JStr ''abc''), (''label'', JStr ''x'')]]"
proof -
  let ?h = "[[(''accountId'', JStr ''abc''), (''label'', JStr ''x'')]]"
  let ?h' = "[[(''accountId'', JStr ''abc''), (''label'', JStr ''x'')], [(''label'', JStr ''x'')]]"
  let ?res = "build_request None ''update_account_label'' (Some (?h ! 0))"
  have l: "(0::nat) < length ?h" by simp
  have m: "build_request_store None ?h ''update_account_label'' (Some 0) = (?res, ?h')"
    by code_simp
  have "?h' ! 0 = ?h ! 0 \<and> take (length ?h) ?h' = ?h \<and> ?res = ?res"
    using l m caller_args_unchanged[of 0 ?h None "''update_account_label''" ?res ?h']
    by blast
  then show ?thesis using l m by blast
qed

end
